theory Spec2Isabelle
  imports Complex_Main
begin

section \<open>The grasp task of \<^verbatim>\<open>gym_envs/envs/tasks/grasp.py\<close>\<close>

text \<open>
  The class \<^verbatim>\<open>Grasp\<close> is embedded method by method. Python floats and the
  entries of numpy float arrays are modelled as real numbers: rounding is not
  modelled, and the closing \<^verbatim>\<open>astype(np.float32)\<close> of
  \<^verbatim>\<open>compute_reward\<close> is the identity of the model. Exceptions are values of
  the type \<open>error\<close>, and a method that can raise returns \<open>error + 'a\<close>.
\<close>

subsection \<open>Arrays\<close>

text \<open>A numpy array of shape \<^verbatim>\<open>(3,)\<close>: a position.\<close>

datatype vec3 = Vec3 (c0: real) (c1: real) (c2: real)

definition vadd :: "vec3 \<Rightarrow> vec3 \<Rightarrow> vec3" where
  "vadd a b = Vec3 (c0 a + c0 b) (c1 a + c1 b) (c2 a + c2 b)"

text \<open>
  A value that is either one sample (\<open>Item\<close>: a numpy scalar, a 0-d array, or one
  position of shape \<^verbatim>\<open>(3,)\<close>) or carries a leading batch axis (\<open>Batch\<close>: shape
  \<^verbatim>\<open>(n,)\<close>, or \<^verbatim>\<open>(n, 3)\<close> for positions).
\<close>

datatype 'a nd = Item 'a | Batch "'a list"

fun nd_map :: "('a \<Rightarrow> 'b) \<Rightarrow> 'a nd \<Rightarrow> 'b nd" where
  "nd_map f (Item a) = Item (f a)"
| "nd_map f (Batch xs) = Batch (map f xs)"

text \<open>
  An elementwise binary operation with numpy's broadcasting of one sample against a
  batch. Two batches are combined position by position; in \<open>compute_reward\<close> every
  batch carries the batch axis of \<^verbatim>\<open>info\<close>, so the two lengths agree there.
\<close>

fun nd_map2 :: "('a \<Rightarrow> 'b \<Rightarrow> 'c) \<Rightarrow> 'a nd \<Rightarrow> 'b nd \<Rightarrow> 'c nd" where
  "nd_map2 f (Item a) (Item b) = Item (f a b)"
| "nd_map2 f (Item a) (Batch ys) = Batch (map (f a) ys)"
| "nd_map2 f (Batch xs) (Item b) = Batch (map (\<lambda>x. f x b) xs)"
| "nd_map2 f (Batch xs) (Batch ys) = Batch (map2 f xs ys)"

text \<open>\<^verbatim>\<open>astype(int)\<close> on a boolean array.\<close>

definition astype_int :: "bool nd \<Rightarrow> int nd" where
  "astype_int = nd_map (\<lambda>b. if b then 1 else 0)"

subsection \<open>Errors\<close>

datatype error =
    KeyError string
  | TypeError
  | IndexError
  | RuntimeError string

subsection \<open>The helper \<^verbatim>\<open>distance\<close>\<close>

definition euclidean_distance :: "vec3 \<Rightarrow> vec3 \<Rightarrow> real" where
  "euclidean_distance a b =
     sqrt ((c0 a - c0 b)\<^sup>2 + (c1 a - c1 b)\<^sup>2 + (c2 a - c2 b)\<^sup>2)"

text \<open>
  Modelled from the spec: \<^verbatim>\<open>gym_envs.utils.distance\<close> is imported by the task and
  is not part of the source at hand. The specification calls it the euclidean
  distance of its two arguments, vectorised over batches. What it does on arrays
  whose shapes do not fit is not specified; the model passes an empty batch on, and
  \<open>check_position_for_grasp\<close> fails on it next.
\<close>

definition distance :: "vec3 nd \<Rightarrow> vec3 nd \<Rightarrow> real nd" where
  "distance a b = nd_map2 euclidean_distance a b"

subsection \<open>The per-step \<^verbatim>\<open>info\<close> bundle\<close>

text \<open>
  One \<^verbatim>\<open>info\<close> dictionary. The three keys the task reads are typed as the
  specification gives them (a position and two flags); \<open>None\<close> is an absent key.
  \<open>extra_keys\<close> are the other keys of the dictionary, whose values are never read.
\<close>

record step_info =
  pos_tcp :: "vec3 option"
  grasp :: "bool option"
  collisions :: "bool option"
  extra_keys :: "string list"

text \<open>The argument \<^verbatim>\<open>info\<close>: a bare dictionary, or a sequence of dictionaries.\<close>

datatype info = Dict step_info | Seq "step_info list"

definition keys :: "step_info \<Rightarrow> string list" where
  "keys dd =
     (case pos_tcp dd of None \<Rightarrow> [] | Some _ \<Rightarrow> [''pos_tcp'']) @
     (case grasp dd of None \<Rightarrow> [] | Some _ \<Rightarrow> [''grasp'']) @
     (case collisions dd of None \<Rightarrow> [] | Some _ \<Rightarrow> [''collisions'']) @
     extra_keys dd"

text \<open>\<^verbatim>\<open>dd[key]\<close> on a dictionary: \<^verbatim>\<open>KeyError\<close> when the key is absent.\<close>

definition getitem :: "(step_info \<Rightarrow> 'a option) \<Rightarrow> string \<Rightarrow> step_info \<Rightarrow> error + 'a" where
  "getitem field key dd = (case field dd of None \<Rightarrow> Inl (KeyError key) | Some v \<Rightarrow> Inr v)"

text \<open>\<^verbatim>\<open>[dd[key] for dd in info]\<close> over a sequence of dictionaries.\<close>

fun comprehension :: "(step_info \<Rightarrow> 'a option) \<Rightarrow> string \<Rightarrow> step_info list \<Rightarrow> error + 'a list" where
  "comprehension field key [] = Inr []"
| "comprehension field key (dd # info) =
     (case getitem field key dd of
        Inl e \<Rightarrow> Inl e
      | Inr v \<Rightarrow>
          (case comprehension field key info of
             Inl e \<Rightarrow> Inl e
           | Inr vs \<Rightarrow> Inr (v # vs)))"

text \<open>
  The body of the \<^verbatim>\<open>try\<close>. Iterating a bare dictionary yields its keys, and
  subscripting a key (a string) with a string raises \<^verbatim>\<open>TypeError\<close>; a dictionary
  without keys yields three empty arrays and raises nothing.
\<close>

fun try_block :: "info \<Rightarrow> error + (vec3 nd \<times> bool nd \<times> bool nd)" where
  "try_block (Seq info) =
     (case comprehension pos_tcp ''pos_tcp'' info of
        Inl e \<Rightarrow> Inl e
      | Inr p \<Rightarrow>
          (case comprehension grasp ''grasp'' info of
             Inl e \<Rightarrow> Inl e
           | Inr g \<Rightarrow>
               (case comprehension collisions ''collisions'' info of
                  Inl e \<Rightarrow> Inl e
                | Inr c \<Rightarrow> Inr (Batch p, Batch g, Batch c))))"
| "try_block (Dict info) =
     (case keys info of
        [] \<Rightarrow> Inr (Batch [], Batch [], Batch [])
      | dd # _ \<Rightarrow> Inl TypeError)"

text \<open>
  The body of the bare \<^verbatim>\<open>except\<close>. Subscripting a sequence with a string raises
  \<^verbatim>\<open>TypeError\<close>, which nothing catches.
\<close>

fun except_block :: "info \<Rightarrow> error + (vec3 nd \<times> bool nd \<times> bool nd)" where
  "except_block (Seq info) = Inl TypeError"
| "except_block (Dict info) =
     (case getitem pos_tcp ''pos_tcp'' info of
        Inl e \<Rightarrow> Inl e
      | Inr p \<Rightarrow>
          (case getitem grasp ''grasp'' info of
             Inl e \<Rightarrow> Inl e
           | Inr g \<Rightarrow>
               (case getitem collisions ''collisions'' info of
                  Inl e \<Rightarrow> Inl e
                | Inr c \<Rightarrow> Inr (Item p, Item g, Item c))))"

text \<open>
  The \<^verbatim>\<open>try\<close>/\<^verbatim>\<open>except\<close> statement that opens \<^verbatim>\<open>compute_reward\<close>: the
  bare \<^verbatim>\<open>except\<close> catches whatever the \<^verbatim>\<open>try\<close> raises.
\<close>

definition extract_info :: "info \<Rightarrow> error + (vec3 nd \<times> bool nd \<times> bool nd)" where
  "extract_info info =
     (case try_block info of Inl e \<Rightarrow> except_block info | Inr r \<Rightarrow> Inr r)"

subsection \<open>The random generator\<close>

text \<open>
  \<^verbatim>\<open>self.np_random\<close> is numpy's generator. Its state is modelled as the sequence
  of the numbers of \<open>[0, 1)\<close> it is going to produce, which its seed determines.
  \<^verbatim>\<open>random()\<close> takes the next number, and \<^verbatim>\<open>uniform(low, high)\<close> on arrays of
  shape \<^verbatim>\<open>(3,)\<close> takes three and returns \<^verbatim>\<open>low + (high - low) * u\<close>
  componentwise.
\<close>

type_synonym rng = "nat \<Rightarrow> real"

definition random :: "rng \<Rightarrow> real \<times> rng" where
  "random g = (g 0, \<lambda>n. g (Suc n))"

definition uniform :: "vec3 \<Rightarrow> vec3 \<Rightarrow> rng \<Rightarrow> vec3 \<times> rng" where
  "uniform low high g =
     (Vec3 (c0 low + (c0 high - c0 low) * g 0)
           (c1 low + (c1 high - c1 low) * g 1)
           (c2 low + (c2 high - c2 low) * g 2),
      \<lambda>n. g (n + 3))"

subsection \<open>The simulator\<close>

text \<open>
  Modelled from the spec: the class \<^verbatim>\<open>PyBullet\<close> of \<^verbatim>\<open>gym_envs.pybullet\<close> is not
  part of the source at hand. The specification treats it as a store of bodies
  whose calls succeed: \<^verbatim>\<open>create_box\<close> and \<^verbatim>\<open>set_base_pose\<close> write a body's pose,
  and the \<^verbatim>\<open>get_base_...\<close> queries read its position, its orientation (a
  quaternion) and its velocities. The ground plane, the table and the friction
  coefficients are read by no method of the task and are not part of the state.
\<close>

datatype quat = Quat real real real real

fun quat_list :: "quat \<Rightarrow> real list" where
  "quat_list (Quat a b c d) = [a, b, c, d]"

definition vec3_list :: "vec3 \<Rightarrow> real list" where
  "vec3_list v = [c0 v, c1 v, c2 v]"

record body =
  position :: vec3
  orientation :: quat
  velocity :: vec3
  angular_velocity :: vec3

type_synonym pybullet = "string \<Rightarrow> body"

definition create_box :: "pybullet \<Rightarrow> string \<Rightarrow> vec3 \<Rightarrow> pybullet" where
  "create_box sim body_name pos =
     sim(body_name := \<lparr>position = pos, orientation = Quat 0 0 0 1,
                         velocity = Vec3 0 0 0, angular_velocity = Vec3 0 0 0\<rparr>)"

definition set_base_pose :: "pybullet \<Rightarrow> string \<Rightarrow> vec3 \<Rightarrow> quat \<Rightarrow> pybullet" where
  "set_base_pose sim body_name pos ori =
     sim(body_name := (sim body_name)\<lparr>position := pos, orientation := ori\<rparr>)"

definition get_base_position :: "pybullet \<Rightarrow> string \<Rightarrow> vec3" where
  "get_base_position sim body_name = position (sim body_name)"

definition get_base_rotation :: "pybullet \<Rightarrow> string \<Rightarrow> quat" where
  "get_base_rotation sim body_name = orientation (sim body_name)"

definition get_base_velocity :: "pybullet \<Rightarrow> string \<Rightarrow> vec3" where
  "get_base_velocity sim body_name = velocity (sim body_name)"

definition get_base_angular_velocity :: "pybullet \<Rightarrow> string \<Rightarrow> vec3" where
  "get_base_angular_velocity sim body_name = angular_velocity (sim body_name)"

subsection \<open>The task\<close>

text \<open>
  The fields of a \<^verbatim>\<open>Grasp\<close> instance. The callables \<^verbatim>\<open>robot\<close> and
  \<^verbatim>\<open>check_collision\<close> are stored and never called by the class; they are left
  out. \<open>goal\<close> is \<open>None\<close> for Python's \<^verbatim>\<open>None\<close>.
\<close>

record task =
  sim :: pybullet
  np_random :: rng
  goal :: "vec3 option"
  initial_height :: real
  reward_type :: string
  distance_threshold :: real
  object_size :: real
  goal_range_low :: vec3
  goal_range_high :: vec3
  obj_range_low :: vec3
  obj_range_high :: vec3

text \<open>\<^verbatim>\<open>_create_scene\<close>, on the bodies the task reads.\<close>

definition create_scene :: "task \<Rightarrow> task" where
  "create_scene self =
     (let sim1 = create_box (sim self) ''object'' (Vec3 0 (- 0.2) (object_size self / 2));
          sim2 = create_box sim1 ''target'' (Vec3 0 0.2 0.1)
      in self\<lparr>sim := sim2\<rparr>)"

text \<open>
  \<^verbatim>\<open>__init__\<close>. Modelled from the spec: the base class \<^verbatim>\<open>Task\<close> of
  \<^verbatim>\<open>gym_envs.envs.core\<close> is not part of the source at hand; its constructor
  stores the simulator and leaves the task without a goal (\<^verbatim>\<open>get_desired_goal\<close>
  tests \<^verbatim>\<open>self.goal is None\<close>), and the generator \<^verbatim>\<open>np_random\<close> comes with it.
\<close>

definition init ::
  "pybullet \<Rightarrow> rng \<Rightarrow> string \<Rightarrow> real \<Rightarrow> real \<Rightarrow> real \<Rightarrow> real \<Rightarrow> task" where
  "init sim0 rng0 reward_type0 distance_threshold0 goal_xy_range goal_z_range obj_xy_range =
     create_scene
       \<lparr>sim = sim0,
        np_random = rng0,
        goal = None,
        initial_height = 0,
        reward_type = reward_type0,
        distance_threshold = distance_threshold0,
        object_size = 0.04,
        goal_range_low = Vec3 (- goal_xy_range / 2) (- goal_xy_range / 2) 0,
        goal_range_high = Vec3 (goal_xy_range / 2) (goal_xy_range / 2) goal_z_range,
        obj_range_low = Vec3 (- obj_xy_range / 2) (- obj_xy_range / 2) 0,
        obj_range_high = Vec3 (obj_xy_range / 2) (obj_xy_range / 2) 0\<rparr>"

definition get_obs :: "task \<Rightarrow> real list" where
  "get_obs self =
     (let object_position = get_base_position (sim self) ''object'';
          object_rotation = get_base_rotation (sim self) ''object'';
          object_velocity = get_base_velocity (sim self) ''object'';
          object_angular_velocity = get_base_angular_velocity (sim self) ''object''
      in vec3_list object_position @ quat_list object_rotation @
         vec3_list object_velocity @ vec3_list object_angular_velocity)"

definition get_achieved_goal :: "task \<Rightarrow> vec3" where
  "get_achieved_goal self = get_base_position (sim self) ''object''"

definition get_desired_goal :: "task \<Rightarrow> error + vec3" where
  "get_desired_goal self =
     (case goal self of
        None \<Rightarrow> Inl (RuntimeError ''No goal yet, call reset() first'')
      | Some g \<Rightarrow> Inr g)"

text \<open>
  \<^verbatim>\<open>_sample_goal\<close> and \<^verbatim>\<open>_sample_object\<close> return the sample together with the
  task, whose generator has advanced.
\<close>

definition sample_goal :: "task \<Rightarrow> vec3 \<times> task" where
  "sample_goal self =
     (let goal0 = Vec3 0 0.2 (0.15 + object_size self / 2);
          (noise, g1) = uniform (goal_range_low self) (goal_range_high self) (np_random self);
          (u, g2) = random g1;
          noise1 = (if u < 0.3 then Vec3 (c0 noise) (c1 noise) 0 else noise)
      in (vadd goal0 noise1, self\<lparr>np_random := g2\<rparr>))"

definition sample_object :: "task \<Rightarrow> vec3 \<times> task" where
  "sample_object self =
     (let object_position = Vec3 0 (- 0.2) (object_size self / 2);
          (noise, g1) = uniform (obj_range_low self) (obj_range_high self) (np_random self)
      in (vadd object_position noise, self\<lparr>np_random := g1\<rparr>))"

definition reset :: "task \<Rightarrow> task" where
  "reset self =
     (let (g, self1) = sample_goal self;
          self2 = self1\<lparr>goal := Some g\<rparr>;
          (object_position, self3) = sample_object self2;
          sim1 = set_base_pose (sim self3) ''target'' g (Quat 0 0 0 1);
          sim2 = set_base_pose sim1 ''object'' object_position (Quat 0 0 0 1);
          self4 = self3\<lparr>sim := sim2\<rparr>
      in self4\<lparr>initial_height := c2 (get_base_position (sim self4) ''object'')\<rparr>)"

definition is_success :: "task \<Rightarrow> vec3 \<Rightarrow> vec3 \<Rightarrow> bool nd" where
  "is_success self achieved_goal desired_goal =
     (let d = distance (Item achieved_goal) (Item desired_goal)
      in nd_map (\<lambda>x. x < distance_threshold self) d)"

text \<open>
  \<^verbatim>\<open>check_position_for_grasp\<close>. \<^verbatim>\<open>pos_tcp.T\<close> has the three coordinates as its
  rows; on the empty array, of shape \<^verbatim>\<open>(0,)\<close>, \<^verbatim>\<open>pos_tcp[0]\<close> raises
  \<^verbatim>\<open>IndexError\<close>.
\<close>

definition in_position :: "vec3 \<Rightarrow> vec3 \<Rightarrow> bool" where
  "in_position p q \<longleftrightarrow>
     \<bar>c0 p - c0 q\<bar> < 0.02 \<and> \<bar>c1 p - c1 q\<bar> < 0.02 \<and> \<bar>c2 p - c2 q\<bar> < 0.01"

fun check_position_for_grasp :: "task \<Rightarrow> vec3 nd \<Rightarrow> vec3 \<Rightarrow> error + bool nd" where
  "check_position_for_grasp self (Item p) pos_obj = Inr (Item (in_position p pos_obj))"
| "check_position_for_grasp self (Batch []) pos_obj = Inl IndexError"
| "check_position_for_grasp self (Batch ps) pos_obj =
     Inr (Batch (map (\<lambda>p. in_position p pos_obj) ps))"

text \<open>
  \<^verbatim>\<open>compute_reward\<close>. \<^verbatim>\<open>gripper_action\<close> is extracted and not used. The integer
  arrays enter the floating-point sum through \<open>real_of_int\<close>.
\<close>

definition compute_reward :: "task \<Rightarrow> vec3 \<Rightarrow> vec3 \<Rightarrow> info \<Rightarrow> error + real nd" where
  "compute_reward self achieved_goal desired_goal info =
     (case extract_info info of
        Inl e \<Rightarrow> Inl e
      | Inr (tcp, gripper_action, coll) \<Rightarrow>
          (let reach_reward = distance tcp (Item achieved_goal) in
           case check_position_for_grasp self tcp achieved_goal of
             Inl e \<Rightarrow> Inl e
           | Inr position_for_grasp \<Rightarrow>
               (let grasp_reward = astype_int (nd_map2 (\<and>) position_for_grasp coll);
                    penalty_for_pushing =
                      astype_int (nd_map2 (\<and>) coll (nd_map Not position_for_grasp));
                    obj_to_target = distance (Item achieved_goal) (Item desired_goal);
                    total_reward =
                      nd_map2 (-)
                        (nd_map2 (-)
                           (nd_map2 (+)
                              (nd_map2 (+)
                                 (nd_map uminus reach_reward)
                                 (nd_map real_of_int (astype_int position_for_grasp)))
                              (nd_map (\<lambda>x. 5 * real_of_int x) grasp_reward))
                           (nd_map (\<lambda>x. 10 * x) obj_to_target))
                        (nd_map (\<lambda>x. 2 * real_of_int x) penalty_for_pushing)
                in Inr total_reward)))"

text \<open>
  The operations the task exposes to the episode loop, and the task after a call:
  \<^verbatim>\<open>reset\<close> is the one method that assigns to a field.
\<close>

datatype call =
    Reset
  | GetObs
  | GetAchievedGoal
  | GetDesiredGoal
  | IsSuccess vec3 vec3
  | ComputeReward vec3 vec3 info

fun exec :: "call \<Rightarrow> task \<Rightarrow> task" where
  "exec Reset self = reset self"
| "exec GetObs self = self"
| "exec GetAchievedGoal self = self"
| "exec GetDesiredGoal self = self"
| "exec (IsSuccess achieved_goal desired_goal) self = self"
| "exec (ComputeReward achieved_goal desired_goal info) self = self"

fun run :: "call list \<Rightarrow> task \<Rightarrow> task" where
  "run [] self = self"
| "run (c # cs) self = run cs (exec c self)"

text \<open>
  The goal and the object position that each \<^verbatim>\<open>reset\<close> of a sequence of calls
  leaves behind, in the order of the calls.
\<close>

fun samples :: "call list \<Rightarrow> task \<Rightarrow> (vec3 option \<times> vec3) list" where
  "samples [] self = []"
| "samples (Reset # cs) self =
     (goal (reset self), get_achieved_goal (reset self)) # samples cs (reset self)"
| "samples (c # cs) self = samples cs (exec c self)"

subsection \<open>The reward as the specification words it\<close>

text \<open>
  An \<^verbatim>\<open>info\<close> dictionary is well formed when it has the three keys the task
  reads.
\<close>

definition well_formed :: "step_info \<Rightarrow> bool" where
  "well_formed dd \<longleftrightarrow> pos_tcp dd \<noteq> None \<and> grasp dd \<noteq> None \<and> collisions dd \<noteq> None"

text \<open>
  Steps 2 to 7 of the reward function of the specification, for one sample: the
  position of the gripper tip, the collision flag, the achieved and the desired
  goal.
\<close>

definition spec_position_for_grasp :: "vec3 \<Rightarrow> vec3 \<Rightarrow> bool" where
  "spec_position_for_grasp tcp achieved \<longleftrightarrow>
     \<bar>c0 tcp - c0 achieved\<bar> < 0.02 \<and>
     \<bar>c1 tcp - c1 achieved\<bar> < 0.02 \<and>
     \<bar>c2 tcp - c2 achieved\<bar> < 0.01"

definition spec_total_reward :: "vec3 \<Rightarrow> bool \<Rightarrow> vec3 \<Rightarrow> vec3 \<Rightarrow> real" where
  "spec_total_reward tcp coll achieved desired =
     (let reach_reward = euclidean_distance tcp achieved;
          position_for_grasp = spec_position_for_grasp tcp achieved;
          grasp_reward = (if position_for_grasp \<and> coll then 1 else 0);
          penalty_for_pushing = (if coll \<and> \<not> position_for_grasp then 1 else 0);
          obj_to_target = euclidean_distance achieved desired
      in - reach_reward + (if position_for_grasp then 1 else 0) + 5 * grasp_reward
         - 10 * obj_to_target - 2 * penalty_for_pushing)"

text \<open>The reward values of a result of \<open>compute_reward\<close>, whatever its shape.\<close>

fun reward_values :: "error + real nd \<Rightarrow> real list option" where
  "reward_values (Inl e) = None"
| "reward_values (Inr (Item x)) = Some [x]"
| "reward_values (Inr (Batch xs)) = Some xs"

subsection \<open>Predicates on tasks, and example inputs\<close>

text \<open>Two tasks sample alike: what the two samplers read is equal.\<close>

definition same_sampler :: "task \<Rightarrow> task \<Rightarrow> bool" where
  "same_sampler s t \<longleftrightarrow>
     object_size s = object_size t \<and>
     goal_range_low s = goal_range_low t \<and> goal_range_high s = goal_range_high t \<and>
     obj_range_low s = obj_range_low t \<and> obj_range_high s = obj_range_high t \<and>
     np_random s = np_random t"

text \<open>What the constructor fixes about the object and its sampling range.\<close>

definition on_table :: "task \<Rightarrow> bool" where
  "on_table s \<longleftrightarrow>
     object_size s = 0.04 \<and> c2 (obj_range_low s) = 0 \<and> c2 (obj_range_high s) = 0"

definition example_sim :: pybullet where
  "example_sim = (\<lambda>body_name. \<lparr>position = Vec3 0 0 0, orientation = Quat 0 0 0 1,
                                 velocity = Vec3 0 0 0, angular_velocity = Vec3 0 0 0\<rparr>)"

definition example_rng :: rng where
  "example_rng = (\<lambda>n. 1 / 2)"

definition example_task :: task where
  "example_task = init example_sim example_rng ''sparse'' 0.05 0.1 0 0.1"

text \<open>A grasp: the gripper tip at the origin, in contact.\<close>

definition example_info :: step_info where
  "example_info =
     \<lparr>pos_tcp = Some (Vec3 0 0 0), grasp = Some True, collisions = Some True,
      extra_keys = [''is_success'']\<rparr>"

text \<open>A push: the gripper tip one unit away, in contact.\<close>

definition pushing_info :: step_info where
  "pushing_info =
     \<lparr>pos_tcp = Some (Vec3 1 0 0), grasp = Some False, collisions = Some True,
      extra_keys = []\<rparr>"

section \<open>Helper lemmas\<close>


lemma comprehension_well_formed:
  "\<forall>dd\<in>set ds. field dd \<noteq> None \<Longrightarrow>
   comprehension field key ds = Inr (map (\<lambda>dd. the (field dd)) ds)"
  by (induction ds) (auto simp: getitem_def)

lemma comprehension_missing:
  "dd \<in> set ds \<Longrightarrow> field dd = None \<Longrightarrow> comprehension field key ds = Inl (KeyError key)"
  by (induction ds) (auto simp: getitem_def split: sum.splits option.splits)

lemma map2_same: "map2 f (map g xs) (map h xs) = map (\<lambda>x. f (g x) (h x)) xs"
  by (induction xs) auto

lemma extract_info_Dict:
  "pos_tcp r = Some p \<Longrightarrow> grasp r = Some g \<Longrightarrow> collisions r = Some c \<Longrightarrow>
   extract_info (Dict r) = Inr (Item p, Item g, Item c)"
  by (simp add: extract_info_def keys_def getitem_def)

lemma extract_info_Seq:
  "\<forall>dd\<in>set ds. well_formed dd \<Longrightarrow>
   extract_info (Seq ds) =
     Inr (Batch (map (\<lambda>dd. the (pos_tcp dd)) ds), Batch (map (\<lambda>dd. the (grasp dd)) ds),
          Batch (map (\<lambda>dd. the (collisions dd)) ds))"
  by (simp add: extract_info_def well_formed_def comprehension_well_formed)

lemma compute_reward_Dict:
  "pos_tcp r = Some p \<Longrightarrow> grasp r = Some g \<Longrightarrow> collisions r = Some c \<Longrightarrow>
   compute_reward self a d (Dict r) = Inr (Item (spec_total_reward p c a d))"
  by (simp add: compute_reward_def extract_info_Dict distance_def astype_int_def
      in_position_def spec_total_reward_def spec_position_for_grasp_def Let_def)

lemma compute_reward_Seq:
  assumes "\<forall>dd\<in>set ds. well_formed dd" "ds \<noteq> []"
  shows "compute_reward self a d (Seq ds) =
     Inr (Batch (map (\<lambda>dd. spec_total_reward (the (pos_tcp dd)) (the (collisions dd)) a d) ds))"
proof -
  obtain x xs where ds: "ds = x # xs" using assms(2) by (cases ds) auto
  have chk: "check_position_for_grasp self (Batch (map (\<lambda>dd. the (pos_tcp dd)) ds)) a =
      Inr (Batch (map (\<lambda>dd. in_position (the (pos_tcp dd)) a) ds))"
    by (simp add: ds comp_def)
  show ?thesis
    by (simp add: compute_reward_def extract_info_Seq[OF assms(1)] chk distance_def astype_int_def
      map2_same Let_def comp_def in_position_def spec_total_reward_def spec_position_for_grasp_def)
qed


lemma try_block_Seq_missing:
  assumes "\<exists>dd\<in>set ds. \<not> well_formed dd"
  shows "\<exists>e. try_block (Seq ds) = Inl e"
proof -
  from assms obtain dd where dd: "dd \<in> set ds" "\<not> well_formed dd" by blast
  then consider "pos_tcp dd = None" | "grasp dd = None" | "collisions dd = None"
    by (auto simp: well_formed_def)
  then show ?thesis
  proof cases
    case 1
    then have "comprehension pos_tcp ''pos_tcp'' ds = Inl (KeyError ''pos_tcp'')"
      using dd(1) by (intro comprehension_missing)
    then show ?thesis by simp
  next
    case 2
    then have "comprehension grasp ''grasp'' ds = Inl (KeyError ''grasp'')"
      using dd(1) by (intro comprehension_missing)
    then show ?thesis by (simp split: sum.splits)
  next
    case 3
    then have "comprehension collisions ''collisions'' ds = Inl (KeyError ''collisions'')"
      using dd(1) by (intro comprehension_missing)
    then show ?thesis by (simp split: sum.splits)
  qed
qed

lemma compute_reward_Seq_missing:
  assumes "\<exists>dd\<in>set ds. \<not> well_formed dd"
  shows "compute_reward self a d (Seq ds) = Inl TypeError"
proof -
  from try_block_Seq_missing[OF assms] obtain e where "try_block (Seq ds) = Inl e" ..
  then show ?thesis by (simp add: compute_reward_def extract_info_def)
qed

lemma compute_reward_Dict_missing:
  assumes "\<not> well_formed r"
  shows "compute_reward self a d (Dict r) =
     Inl (if keys r = [] then IndexError
          else if pos_tcp r = None then KeyError ''pos_tcp''
          else if grasp r = None then KeyError ''grasp''
          else KeyError ''collisions'')"
proof (cases "keys r")
  case Nil
  then show ?thesis by (simp add: compute_reward_def extract_info_def Let_def)
next
  case (Cons k ks)
  then show ?thesis using assms
    by (auto simp: compute_reward_def extract_info_def well_formed_def getitem_def)
qed

lemma exec_frame:
  "c \<noteq> Reset \<Longrightarrow> exec c s = s"
  by (cases c) auto

lemma run_no_reset: "Reset \<notin> set cs \<Longrightarrow> run cs s = s"
  by (induction cs arbitrary: s) (auto simp: exec_frame)

lemma goal_reset: "goal (reset s) = Some (fst (sample_goal s))"
  by (simp add: reset_def sample_object_def Let_def split: prod.splits)

lemma goal_exec_Some: "goal s \<noteq> None \<Longrightarrow> goal (exec c s) \<noteq> None"
  by (cases c) (auto simp: goal_reset)

lemma goal_run_Some: "goal s \<noteq> None \<Longrightarrow> goal (run cs s) \<noteq> None"
proof (induction cs arbitrary: s)
  case Nil
  then show ?case by simp
next
  case (Cons c cs)
  from Cons.prems have "goal (exec c s) \<noteq> None" by (rule goal_exec_Some)
  then have "goal (run cs (exec c s)) \<noteq> None" by (rule Cons.IH)
  then show ?case by simp
qed

lemma goal_run_reset: "Reset \<in> set cs \<Longrightarrow> goal (run cs s) \<noteq> None"
proof (induction cs arbitrary: s)
  case Nil
  then show ?case by simp
next
  case (Cons c cs)
  show ?case
  proof (cases "c = Reset")
    case True
    then show ?thesis by (simp add: goal_run_Some goal_reset)
  next
    case False
    with Cons show ?thesis by (simp add: exec_frame)
  qed
qed

lemma goal_init: "goal (init sim0 g rt th gxy gz oxy) = None"
  by (simp add: init_def create_scene_def Let_def)




lemma sample_goal_explicit:
  "fst (sample_goal s) =
     Vec3 (0 + (c0 (goal_range_low s) + (c0 (goal_range_high s) - c0 (goal_range_low s)) * np_random s 0))
          (0.2 + (c1 (goal_range_low s) + (c1 (goal_range_high s) - c1 (goal_range_low s)) * np_random s 1))
          (0.15 + object_size s / 2 +
             (if np_random s 3 < 0.3 then 0
              else c2 (goal_range_low s) + (c2 (goal_range_high s) - c2 (goal_range_low s)) * np_random s 2))"
  by (simp add: sample_goal_def uniform_def random_def vadd_def Let_def)

lemma sample_goal_rng: "np_random (snd (sample_goal s)) = (\<lambda>n. np_random s (n + 4))"
  by (simp add: sample_goal_def uniform_def random_def Let_def add.commute)

lemma sample_object_explicit:
  "fst (sample_object s) =
     Vec3 (0 + (c0 (obj_range_low s) + (c0 (obj_range_high s) - c0 (obj_range_low s)) * np_random s 0))
          (- 0.2 + (c1 (obj_range_low s) + (c1 (obj_range_high s) - c1 (obj_range_low s)) * np_random s 1))
          (object_size s / 2 +
             (c2 (obj_range_low s) + (c2 (obj_range_high s) - c2 (obj_range_low s)) * np_random s 2))"
  by (simp add: sample_object_def uniform_def vadd_def Let_def)

lemma reset_explicit:
  "reset s =
     s\<lparr>np_random := (\<lambda>n. np_random s (n + 7)),
       goal := Some (fst (sample_goal s)),
       sim := set_base_pose
                (set_base_pose (sim s) ''target'' (fst (sample_goal s)) (Quat 0 0 0 1))
                ''object''
                (fst (sample_object (s\<lparr>np_random := (\<lambda>n. np_random s (n + 4))\<rparr>)))
                (Quat 0 0 0 1),
       initial_height :=
         c2 (fst (sample_object (s\<lparr>np_random := (\<lambda>n. np_random s (n + 4))\<rparr>)))\<rparr>"
  by (simp add: reset_def sample_goal_def sample_object_def uniform_def random_def Let_def
      get_base_position_def set_base_pose_def add.commute add.left_commute)


lemma same_sampler_reset:
  assumes "same_sampler s t"
  shows "same_sampler (reset s) (reset t)"
    and "goal (reset s) = goal (reset t)"
    and "get_achieved_goal (reset s) = get_achieved_goal (reset t)"
proof -
  have g: "fst (sample_goal s) = fst (sample_goal t)"
    using assms by (simp add: sample_goal_explicit same_sampler_def)
  have ob: "fst (sample_object (s\<lparr>np_random := (\<lambda>n. np_random s (n + 4))\<rparr>)) =
            fst (sample_object (t\<lparr>np_random := (\<lambda>n. np_random t (n + 4))\<rparr>))"
    using assms by (simp add: sample_object_explicit same_sampler_def)
  show "same_sampler (reset s) (reset t)"
    using assms by (simp add: reset_explicit same_sampler_def)
  show "goal (reset s) = goal (reset t)"
    using g by (simp add: reset_explicit)
  show "get_achieved_goal (reset s) = get_achieved_goal (reset t)"
    using ob by (simp add: reset_explicit get_achieved_goal_def get_base_position_def
        set_base_pose_def)
qed

lemma same_sampler_samples:
  "same_sampler s t \<Longrightarrow> samples cs s = samples cs t"
proof (induction cs arbitrary: s t)
  case Nil
  show ?case by simp
next
  case (Cons c cs)
  show ?case
  proof (cases "c = Reset")
    case True
    have "same_sampler (reset s) (reset t)"
      using Cons.prems by (rule same_sampler_reset)
    then have "samples cs (reset s) = samples cs (reset t)"
      by (rule Cons.IH)
    then show ?thesis
      using True same_sampler_reset(2,3) [OF Cons.prems] by simp
  next
    case False
    then have "samples (c # cs) s = samples cs s" and "samples (c # cs) t = samples cs t"
      by (cases c; simp)+
    then show ?thesis using Cons.IH [OF Cons.prems] by simp
  qed
qed


lemma on_table_init: "on_table (init sim0 g rt th gxy gz oxy)"
  by (simp add: on_table_def init_def create_scene_def Let_def)

lemma on_table_exec: "on_table s \<Longrightarrow> on_table (exec c s)"
  by (cases c) (simp_all add: on_table_def reset_explicit)

lemma on_table_run: "on_table s \<Longrightarrow> on_table (run cs s)"
proof (induction cs arbitrary: s)
  case Nil
  then show ?case by simp
next
  case (Cons c cs)
  from Cons.prems have "on_table (exec c s)" by (rule on_table_exec)
  then have "on_table (run cs (exec c s))" by (rule Cons.IH)
  then show ?case by simp
qed

lemma on_table_sample_object: "on_table s \<Longrightarrow> c2 (fst (sample_object s)) = object_size s / 2"
  by (simp add: on_table_def sample_object_explicit)

lemma on_table_reset:
  "on_table s \<Longrightarrow> c2 (get_achieved_goal (reset s)) = object_size s / 2"
  by (simp add: on_table_def reset_explicit sample_object_explicit get_achieved_goal_def
      get_base_position_def set_base_pose_def)

lemma reset_poses:
  "get_base_position (sim (reset s)) ''target'' = fst (sample_goal s)"
  "get_base_rotation (sim (reset s)) ''target'' = Quat 0 0 0 1"
  "get_base_position (sim (reset s)) ''object'' = fst (sample_object (snd (sample_goal s)))"
  "get_base_rotation (sim (reset s)) ''object'' = Quat 0 0 0 1"
  "initial_height (reset s) = c2 (get_base_position (sim (reset s)) ''object'')"
  by (simp_all add: reset_explicit get_base_position_def get_base_rotation_def set_base_pose_def
      sample_object_explicit sample_goal_def uniform_def random_def Let_def add.commute)

lemma compute_reward_reward_type:
  "compute_reward (self\<lparr>reward_type := rt\<rparr>) a d i = compute_reward self a d i"
proof -
  have chk: "check_position_for_grasp (self\<lparr>reward_type := rt\<rparr>) p a =
             check_position_for_grasp self p a" for p
    by (cases "(self, p, a)" rule: check_position_for_grasp.cases) simp_all
  show ?thesis
    by (simp add: compute_reward_def chk split: sum.splits prod.splits)
qed

section \<open>The claims\<close>

text \<open>
  C1. For every achieved goal, desired goal and \<^verbatim>\<open>info\<close> bundle that has the three
  fields, \<open>compute_reward\<close> returns the total of the specification:
  \<open>- reach_reward + position_for_grasp + 5 * grasp_reward - 10 * obj_to_target -
  2 * penalty_for_pushing\<close>, with the reach reward the distance from the gripper tip
  to the object, the grasp reward 1 iff in position and in contact, the penalty 1 iff
  in contact and not in position, and \<open>obj_to_target\<close> the distance from the object
  to the target. This holds for a bare dictionary and, sample by sample, for a
  non-empty sequence of dictionaries. With the gripper tip and the object at the
  origin, the target at \<open>(1, 0, 0)\<close> and a contact, the reward is \<open>- 4\<close>.
\<close>

theorem compute_reward_formula:
  "(pos_tcp r = Some p \<and> grasp r = Some g \<and> collisions r = Some c \<longrightarrow>
      compute_reward self a d (Dict r) = Inr (Item (spec_total_reward p c a d))) \<and>
   (ds \<noteq> [] \<and> (\<forall>dd\<in>set ds. well_formed dd) \<longrightarrow>
      compute_reward self a d (Seq ds) =
        Inr (Batch (map (\<lambda>dd. spec_total_reward (the (pos_tcp dd)) (the (collisions dd)) a d) ds))) \<and>
   compute_reward self (Vec3 0 0 0) (Vec3 1 0 0)
     (Dict \<lparr>pos_tcp = Some (Vec3 0 0 0), grasp = Some g, collisions = Some True,
            extra_keys = ks\<rparr>) = Inr (Item (- 4))"
proof (intro conjI impI)
  assume "pos_tcp r = Some p \<and> grasp r = Some g \<and> collisions r = Some c"
  then show "compute_reward self a d (Dict r) = Inr (Item (spec_total_reward p c a d))"
    by (simp add: compute_reward_Dict)
next
  assume "ds \<noteq> [] \<and> (\<forall>dd\<in>set ds. well_formed dd)"
  then show "compute_reward self a d (Seq ds) =
      Inr (Batch (map (\<lambda>dd. spec_total_reward (the (pos_tcp dd)) (the (collisions dd)) a d) ds))"
    by (simp add: compute_reward_Seq)
next
  have "spec_total_reward (Vec3 0 0 0) True (Vec3 0 0 0) (Vec3 1 0 0) = - 4"
    by (simp add: spec_total_reward_def spec_position_for_grasp_def euclidean_distance_def)
  then show "compute_reward self (Vec3 0 0 0) (Vec3 1 0 0)
     (Dict \<lparr>pos_tcp = Some (Vec3 0 0 0), grasp = Some g, collisions = Some True,
            extra_keys = ks\<rparr>) = Inr (Item (- 4))"
    by (simp add: compute_reward_Dict [where p = "Vec3 0 0 0" and g = g and c = True])
qed

theorem compute_reward_formula_witness:
  "pos_tcp pushing_info = Some (Vec3 1 0 0) \<and> grasp pushing_info = Some False \<and>
   collisions pushing_info = Some True \<and>
   compute_reward example_task (Vec3 0 0 0) (Vec3 1 0 0) (Dict pushing_info) = Inr (Item (- 13)) \<and>
   [example_info, pushing_info] \<noteq> [] \<and>
   well_formed example_info \<and> well_formed pushing_info \<and>
   compute_reward example_task (Vec3 0 0 0) (Vec3 1 0 0) (Seq [example_info, pushing_info]) =
     Inr (Batch [- 4, - 13])"
proof -
  have h: "pos_tcp pushing_info = Some (Vec3 1 0 0) \<and> grasp pushing_info = Some False \<and>
           collisions pushing_info = Some True"
    by (simp add: pushing_info_def)
  have wf: "[example_info, pushing_info] \<noteq> [] \<and>
            (\<forall>dd\<in>set [example_info, pushing_info]. well_formed dd)"
    by (auto simp: example_info_def pushing_info_def well_formed_def)
  have v: "spec_total_reward (Vec3 0 0 0) True (Vec3 0 0 0) (Vec3 1 0 0) = - 4"
          "spec_total_reward (Vec3 1 0 0) True (Vec3 0 0 0) (Vec3 1 0 0) = - 13"
    by (simp_all add: spec_total_reward_def spec_position_for_grasp_def euclidean_distance_def)
  have sel: "the (pos_tcp example_info) = Vec3 0 0 0" "the (collisions example_info) = True"
            "the (pos_tcp pushing_info) = Vec3 1 0 0" "the (collisions pushing_info) = True"
    by (simp_all add: example_info_def pushing_info_def)
  have wf2: "well_formed example_info \<and> well_formed pushing_info"
    using wf by simp
  from compute_reward_formula [where r = pushing_info and p = "Vec3 1 0 0" and g = False
      and c = True and self = example_task and a = "Vec3 0 0 0" and d = "Vec3 1 0 0"
      and ds = "[example_info, pushing_info]"] h wf wf2
  show ?thesis by (simp add: v sel)
qed

text \<open>
  C2. For every achieved and desired goal, \<open>is_success\<close> is true iff their
  euclidean distance is below \<open>distance_threshold\<close>; the comparison is strict, so
  at a distance equal to the threshold the result is false.
\<close>

theorem is_success_iff:
  "is_success self a d = Item (euclidean_distance a d < distance_threshold self) \<and>
   (euclidean_distance a d = distance_threshold self \<longrightarrow> is_success self a d = Item False)"
  by (simp add: is_success_def distance_def)

theorem is_success_iff_witness:
  "euclidean_distance (Vec3 0 0 0) (Vec3 1 0 0) =
     distance_threshold (example_task\<lparr>distance_threshold := 1\<rparr>) \<and>
   is_success (example_task\<lparr>distance_threshold := 1\<rparr>) (Vec3 0 0 0) (Vec3 1 0 0) = Item False"
  using is_success_iff [of "example_task\<lparr>distance_threshold := 1\<rparr>" "Vec3 0 0 0" "Vec3 1 0 0"]
  by (simp add: euclidean_distance_def)

text \<open>
  C3. For every position of the gripper tip and of the object,
  \<open>check_position_for_grasp\<close> holds iff the two positions differ by less than 0.02
  along x, by less than 0.02 along y and by less than 0.01 along z. The function is
  given the two positions only: its value is the same whatever the collision flag is.
  On a non-empty batch of gripper positions it is this test sample by sample.
\<close>

theorem check_position_for_grasp_iff:
  "check_position_for_grasp self (Item p) q =
     Inr (Item (\<bar>c0 p - c0 q\<bar> < 0.02 \<and> \<bar>c1 p - c1 q\<bar> < 0.02 \<and> \<bar>c2 p - c2 q\<bar> < 0.01)) \<and>
   check_position_for_grasp self (Batch (p # ps)) q =
     Inr (Batch (map (\<lambda>p. \<bar>c0 p - c0 q\<bar> < 0.02 \<and> \<bar>c1 p - c1 q\<bar> < 0.02 \<and> \<bar>c2 p - c2 q\<bar> < 0.01)
                  (p # ps)))"
  by (simp add: in_position_def)

text \<open>
  C4. On a task that has not been reset, whatever other operations have been
  called, \<open>get_desired_goal\<close> fails with the error "No goal yet, call reset()
  first" and returns no vector. Once a \<^verbatim>\<open>reset\<close> has occurred it returns the goal
  of the task, and right after a \<^verbatim>\<open>reset\<close> that is the goal the reset has sampled.
\<close>

theorem get_desired_goal_precondition:
  "(Reset \<notin> set cs \<longrightarrow>
      get_desired_goal (run cs (init sm g rt th gxy gz oxy)) =
        Inl (RuntimeError ''No goal yet, call reset() first'')) \<and>
   (Reset \<in> set cs \<longrightarrow>
      (\<exists>v. goal (run cs s) = Some v \<and> get_desired_goal (run cs s) = Inr v)) \<and>
   get_desired_goal (reset s) = Inr (fst (sample_goal s))"
proof (intro conjI impI)
  assume "Reset \<notin> set cs"
  then show "get_desired_goal (run cs (init sm g rt th gxy gz oxy)) =
        Inl (RuntimeError ''No goal yet, call reset() first'')"
    by (simp add: run_no_reset get_desired_goal_def goal_init)
next
  assume "Reset \<in> set cs"
  then obtain v where "goal (run cs s) = Some v" using goal_run_reset by blast
  then show "\<exists>v. goal (run cs s) = Some v \<and> get_desired_goal (run cs s) = Inr v"
    by (simp add: get_desired_goal_def)
next
  show "get_desired_goal (reset s) = Inr (fst (sample_goal s))"
    by (simp add: get_desired_goal_def goal_reset)
qed

theorem get_desired_goal_precondition_witness:
  "Reset \<notin> set [GetObs, GetDesiredGoal] \<and>
   get_desired_goal (run [GetObs, GetDesiredGoal] example_task) =
     Inl (RuntimeError ''No goal yet, call reset() first'') \<and>
   Reset \<in> set [GetObs, Reset, GetAchievedGoal] \<and>
   (\<exists>v. goal (run [GetObs, Reset, GetAchievedGoal] example_task) = Some v \<and>
        get_desired_goal (run [GetObs, Reset, GetAchievedGoal] example_task) = Inr v)"
  using get_desired_goal_precondition [where cs = "[GetObs, GetDesiredGoal]"
      and sm = example_sim and g = example_rng and rt = "''sparse''" and th = "0.05"
      and gxy = "0.1" and gz = 0 and oxy = "0.1"]
    get_desired_goal_precondition [where cs = "[GetObs, Reset, GetAchievedGoal]"
      and s = example_task]
  by (simp add: example_task_def)

text \<open>
  C5. For every \<^verbatim>\<open>info\<close> record and every achieved and desired goal,
  \<open>compute_reward\<close> yields the same reward value on the record passed as a
  sequence of length one as on the bare record; on a record with the three fields
  both calls return this one value, as an array of one entry and as a scalar.
\<close>

theorem compute_reward_batch_of_one:
  "reward_values (compute_reward self a d (Seq [r])) =
     reward_values (compute_reward self a d (Dict r)) \<and>
   (well_formed r \<longrightarrow>
      (\<exists>v. compute_reward self a d (Dict r) = Inr (Item v) \<and>
           compute_reward self a d (Seq [r]) = Inr (Batch [v])))"
proof (cases "well_formed r")
  case True
  then obtain p g c where f: "pos_tcp r = Some p" "grasp r = Some g" "collisions r = Some c"
    by (auto simp: well_formed_def)
  have one: "compute_reward self a d (Dict r) = Inr (Item (spec_total_reward p c a d))"
    using f by (rule compute_reward_Dict)
  have "\<forall>dd\<in>set [r]. well_formed dd" using True by simp
  then have "compute_reward self a d (Seq [r]) =
      Inr (Batch (map (\<lambda>dd. spec_total_reward (the (pos_tcp dd)) (the (collisions dd)) a d) [r]))"
    by (rule compute_reward_Seq) simp
  then have many: "compute_reward self a d (Seq [r]) = Inr (Batch [spec_total_reward p c a d])"
    using f by simp
  show ?thesis using one many by simp
next
  case False
  then have "\<exists>dd\<in>set [r]. \<not> well_formed dd" by simp
  then have "compute_reward self a d (Seq [r]) = Inl TypeError"
    by (rule compute_reward_Seq_missing)
  moreover have "\<exists>e. compute_reward self a d (Dict r) = Inl e"
    using compute_reward_Dict_missing [OF False] by blast
  ultimately show ?thesis using False by auto
qed

theorem compute_reward_batch_of_one_witness:
  "well_formed pushing_info \<and>
   compute_reward example_task (Vec3 0 0 0) (Vec3 1 0 0) (Dict pushing_info) = Inr (Item (- 13)) \<and>
   compute_reward example_task (Vec3 0 0 0) (Vec3 1 0 0) (Seq [pushing_info]) = Inr (Batch [- 13])"
proof -
  have wf: "well_formed pushing_info"
    by (auto simp: pushing_info_def well_formed_def)
  have "compute_reward example_task (Vec3 0 0 0) (Vec3 1 0 0) (Dict pushing_info) =
          Inr (Item (- 13))"
    by (simp add: compute_reward_def extract_info_def keys_def getitem_def pushing_info_def
        distance_def euclidean_distance_def in_position_def astype_int_def)
  with compute_reward_batch_of_one [of example_task "Vec3 0 0 0" "Vec3 1 0 0" pushing_info] wf
  show ?thesis by auto
qed

text \<open>
  C6. For every \<^verbatim>\<open>info\<close> bundle that lacks one of the fields \<^verbatim>\<open>pos_tcp\<close>,
  \<^verbatim>\<open>grasp\<close> and \<^verbatim>\<open>collisions\<close>, \<open>compute_reward\<close> returns no reward: an error
  reaches the caller. A bare dictionary with some key raises \<^verbatim>\<open>KeyError\<close> for the
  first field it lacks, and a bare dictionary with no key at all fails as well; a
  sequence with such a dictionary raises \<^verbatim>\<open>TypeError\<close>, from the \<^verbatim>\<open>except\<close>
  branch.
\<close>

theorem compute_reward_missing_field:
  "(\<not> well_formed r \<longrightarrow>
      (\<exists>e. compute_reward self a d (Dict r) = Inl e) \<and>
      (keys r \<noteq> [] \<longrightarrow>
         compute_reward self a d (Dict r) =
           Inl (if pos_tcp r = None then KeyError ''pos_tcp''
                else if grasp r = None then KeyError ''grasp''
                else KeyError ''collisions''))) \<and>
   ((\<exists>dd\<in>set ds. \<not> well_formed dd) \<longrightarrow> compute_reward self a d (Seq ds) = Inl TypeError)"
  by (simp add: compute_reward_Dict_missing compute_reward_Seq_missing)

theorem compute_reward_missing_field_witness:
  "\<not> well_formed (example_info\<lparr>grasp := None\<rparr>) \<and>
   compute_reward example_task (Vec3 0 0 0) (Vec3 1 0 0) (Dict (example_info\<lparr>grasp := None\<rparr>)) =
     Inl (KeyError ''grasp'') \<and>
   (\<exists>dd\<in>set [example_info, example_info\<lparr>grasp := None\<rparr>]. \<not> well_formed dd) \<and>
   compute_reward example_task (Vec3 0 0 0) (Vec3 1 0 0)
     (Seq [example_info, example_info\<lparr>grasp := None\<rparr>]) = Inl TypeError"
proof -
  have nwf: "\<not> well_formed (example_info\<lparr>grasp := None\<rparr>)"
    by (simp add: well_formed_def)
  have ex: "\<exists>dd\<in>set [example_info, example_info\<lparr>grasp := None\<rparr>]. \<not> well_formed dd"
    using nwf by simp
  have k: "keys (example_info\<lparr>grasp := None\<rparr>) \<noteq> []"
          "pos_tcp (example_info\<lparr>grasp := None\<rparr>) \<noteq> None"
    by (simp_all add: keys_def example_info_def)
  from compute_reward_missing_field [where r = "example_info\<lparr>grasp := None\<rparr>"
      and self = example_task and a = "Vec3 0 0 0" and d = "Vec3 1 0 0"
      and ds = "[example_info, example_info\<lparr>grasp := None\<rparr>]"] nwf ex k
  show ?thesis by simp
qed

text \<open>
  C7. For every task that the constructor builds, whatever \<^verbatim>\<open>obj_xy_range\<close> is
  configured and whatever has been called since, the object position that
  \<^verbatim>\<open>_sample_object\<close> samples has its z-coordinate equal to half the object size,
  and so has the object after a \<^verbatim>\<open>reset\<close>: the z-components of the two bounds of
  the object range are 0.
\<close>

theorem sample_object_on_table:
  "object_size (run cs (init sm g rt th gxy gz oxy)) = 0.04 \<and>
   c2 (obj_range_low (run cs (init sm g rt th gxy gz oxy))) = 0 \<and>
   c2 (obj_range_high (run cs (init sm g rt th gxy gz oxy))) = 0 \<and>
   c2 (fst (sample_object (run cs (init sm g rt th gxy gz oxy)))) =
     object_size (run cs (init sm g rt th gxy gz oxy)) / 2 \<and>
   c2 (get_achieved_goal (reset (run cs (init sm g rt th gxy gz oxy)))) =
     object_size (run cs (init sm g rt th gxy gz oxy)) / 2"
proof -
  have inv: "on_table (run cs (init sm g rt th gxy gz oxy))"
    by (rule on_table_run) (rule on_table_init)
  show ?thesis
    using inv on_table_sample_object [OF inv] on_table_reset [OF inv]
    by (simp add: on_table_def)
qed

text \<open>
  C8. \<^verbatim>\<open>reset\<close> sets \<open>goal\<close> and \<open>initial_height\<close> together: it stores the sampled
  goal, writes the goal and the sampled object position into the simulator, each
  with the identity quaternion as orientation, and records as \<open>initial_height\<close> the
  z-coordinate the object has in the simulator afterwards. The other exposed
  operations (\<^verbatim>\<open>get_obs\<close>, \<^verbatim>\<open>get_achieved_goal\<close>, \<^verbatim>\<open>get_desired_goal\<close>,
  \<^verbatim>\<open>is_success\<close>, \<^verbatim>\<open>compute_reward\<close>) change neither field, so over any sequence
  of calls without a \<^verbatim>\<open>reset\<close> both fields stay as they are.
\<close>

theorem goal_and_initial_height_fixed:
  "goal (reset s) = Some (fst (sample_goal s)) \<and>
   get_base_position (sim (reset s)) ''target'' = fst (sample_goal s) \<and>
   get_base_rotation (sim (reset s)) ''target'' = Quat 0 0 0 1 \<and>
   get_base_position (sim (reset s)) ''object'' = fst (sample_object (snd (sample_goal s))) \<and>
   get_base_rotation (sim (reset s)) ''object'' = Quat 0 0 0 1 \<and>
   initial_height (reset s) = c2 (get_base_position (sim (reset s)) ''object'') \<and>
   (Reset \<notin> set cs \<longrightarrow>
      goal (run cs s) = goal s \<and> initial_height (run cs s) = initial_height s)"
  using reset_poses [of s] by (simp add: goal_reset run_no_reset)

theorem goal_and_initial_height_fixed_witness:
  "Reset \<notin> set [GetObs, GetAchievedGoal, GetDesiredGoal,
                 IsSuccess (Vec3 0 0 0) (Vec3 1 0 0),
                 ComputeReward (Vec3 0 0 0) (Vec3 1 0 0) (Dict example_info)] \<and>
   goal (run [GetObs, GetAchievedGoal, GetDesiredGoal,
              IsSuccess (Vec3 0 0 0) (Vec3 1 0 0),
              ComputeReward (Vec3 0 0 0) (Vec3 1 0 0) (Dict example_info)]
           (reset example_task)) = goal (reset example_task) \<and>
   initial_height (run [GetObs, GetAchievedGoal, GetDesiredGoal,
              IsSuccess (Vec3 0 0 0) (Vec3 1 0 0),
              ComputeReward (Vec3 0 0 0) (Vec3 1 0 0) (Dict example_info)]
           (reset example_task)) = initial_height (reset example_task)"
  using goal_and_initial_height_fixed [where s = "reset example_task"
      and cs = "[GetObs, GetAchievedGoal, GetDesiredGoal,
                 IsSuccess (Vec3 0 0 0) (Vec3 1 0 0),
                 ComputeReward (Vec3 0 0 0) (Vec3 1 0 0) (Dict example_info)]"]
  by simp

text \<open>
  C9. Sampling is determined by the generator: two tasks with equal object size,
  equal sampling ranges and equal generators produce, over any sequence of calls,
  the same goal and the same object position at every \<^verbatim>\<open>reset\<close>. Each sampled goal
  is the base point \<open>(0, 0.2, 0.15 + object_size / 2)\<close> plus the offset
  \<open>low + (high - low) * u\<close> drawn from the goal range, whose z-component is replaced
  by 0 exactly when the next number the generator draws is below 0.3.
\<close>

theorem sampling_deterministic:
  "(same_sampler s t \<longrightarrow> samples cs s = samples cs t) \<and>
   fst (sample_goal s) =
     Vec3 (0 + (c0 (goal_range_low s) +
                (c0 (goal_range_high s) - c0 (goal_range_low s)) * np_random s 0))
          (0.2 + (c1 (goal_range_low s) +
                  (c1 (goal_range_high s) - c1 (goal_range_low s)) * np_random s 1))
          (0.15 + object_size s / 2 +
             (if np_random s 3 < 0.3 then 0
              else c2 (goal_range_low s) +
                   (c2 (goal_range_high s) - c2 (goal_range_low s)) * np_random s 2))"
  using sample_goal_explicit [of s] by (simp add: same_sampler_samples)

theorem sampling_deterministic_witness:
  "same_sampler example_task
     (example_task\<lparr>sim := create_box example_sim ''object'' (Vec3 1 1 1),
                   goal := Some (Vec3 0 0 0), initial_height := 1,
                   reward_type := ''dense''\<rparr>) \<and>
   samples [Reset, GetObs, Reset] example_task =
   samples [Reset, GetObs, Reset]
     (example_task\<lparr>sim := create_box example_sim ''object'' (Vec3 1 1 1),
                   goal := Some (Vec3 0 0 0), initial_height := 1,
                   reward_type := ''dense''\<rparr>)"
  using sampling_deterministic [where s = example_task
      and t = "example_task\<lparr>sim := create_box example_sim ''object'' (Vec3 1 1 1),
                   goal := Some (Vec3 0 0 0), initial_height := 1,
                   reward_type := ''dense''\<rparr>"
      and cs = "[Reset, GetObs, Reset]"]
  by (simp add: same_sampler_def)

text \<open>
  C10. \<open>compute_reward\<close> computes the dense shaped reward whatever the reward
  mode is. For every input, a task and the same task with another \<open>reward_type\<close>
  return equal rewards, and so do two tasks constructed with \<^verbatim>\<open>'sparse'\<close> (the
  default) and with \<^verbatim>\<open>'dense'\<close>, all other arguments equal. For every
  \<open>reward_type\<close>, on a task as constructed and on any task, the reward of a record
  with the three fields is the shaped total of the specification, and so it is, sample
  by sample, on a non-empty sequence of such records.
\<close>

theorem compute_reward_ignores_reward_type:
  "compute_reward (self\<lparr>reward_type := rt\<rparr>) a d i = compute_reward self a d i \<and>
   compute_reward (init sm g ''sparse'' th gxy gz oxy) a d i =
     compute_reward (init sm g ''dense'' th gxy gz oxy) a d i \<and>
   (pos_tcp r = Some p \<and> grasp r = Some gr \<and> collisions r = Some c \<longrightarrow>
      compute_reward (init sm g rt th gxy gz oxy) a d (Dict r) =
        Inr (Item (spec_total_reward p c a d)) \<and>
      compute_reward (self\<lparr>reward_type := rt\<rparr>) a d (Dict r) =
        Inr (Item (spec_total_reward p c a d))) \<and>
   (ds \<noteq> [] \<and> (\<forall>dd\<in>set ds. well_formed dd) \<longrightarrow>
      compute_reward (init sm g rt th gxy gz oxy) a d (Seq ds) =
        Inr (Batch (map (\<lambda>dd. spec_total_reward (the (pos_tcp dd)) (the (collisions dd)) a d)
                     ds)) \<and>
      compute_reward (self\<lparr>reward_type := rt\<rparr>) a d (Seq ds) =
        Inr (Batch (map (\<lambda>dd. spec_total_reward (the (pos_tcp dd)) (the (collisions dd)) a d)
                     ds)))"
proof (intro conjI impI)
  show "compute_reward (self\<lparr>reward_type := rt\<rparr>) a d i = compute_reward self a d i"
    by (rule compute_reward_reward_type)
next
  have "init sm g ''sparse'' th gxy gz oxy =
        (init sm g ''dense'' th gxy gz oxy)\<lparr>reward_type := ''sparse''\<rparr>"
    by (simp add: init_def create_scene_def Let_def)
  then show "compute_reward (init sm g ''sparse'' th gxy gz oxy) a d i =
             compute_reward (init sm g ''dense'' th gxy gz oxy) a d i"
    by (simp add: compute_reward_reward_type)
next
  assume "pos_tcp r = Some p \<and> grasp r = Some gr \<and> collisions r = Some c"
  then show "compute_reward (init sm g rt th gxy gz oxy) a d (Dict r) =
             Inr (Item (spec_total_reward p c a d))"
    by (simp add: compute_reward_Dict)
next
  assume "pos_tcp r = Some p \<and> grasp r = Some gr \<and> collisions r = Some c"
  then show "compute_reward (self\<lparr>reward_type := rt\<rparr>) a d (Dict r) =
             Inr (Item (spec_total_reward p c a d))"
    by (simp add: compute_reward_Dict)
next
  assume "ds \<noteq> [] \<and> (\<forall>dd\<in>set ds. well_formed dd)"
  then show "compute_reward (init sm g rt th gxy gz oxy) a d (Seq ds) =
      Inr (Batch (map (\<lambda>dd. spec_total_reward (the (pos_tcp dd)) (the (collisions dd)) a d)
                   ds))"
    by (simp add: compute_reward_Seq)
next
  assume "ds \<noteq> [] \<and> (\<forall>dd\<in>set ds. well_formed dd)"
  then show "compute_reward (self\<lparr>reward_type := rt\<rparr>) a d (Seq ds) =
      Inr (Batch (map (\<lambda>dd. spec_total_reward (the (pos_tcp dd)) (the (collisions dd)) a d)
                   ds))"
    by (simp add: compute_reward_Seq)
qed

theorem compute_reward_ignores_reward_type_witness:
  "pos_tcp pushing_info = Some (Vec3 1 0 0) \<and> grasp pushing_info = Some False \<and>
   collisions pushing_info = Some True \<and>
   compute_reward (init example_sim example_rng ''sparse'' 0.05 0.1 0 0.1)
     (Vec3 0 0 0) (Vec3 1 0 0) (Dict pushing_info) = Inr (Item (- 13)) \<and>
   compute_reward (init example_sim example_rng ''dense'' 0.05 0.1 0 0.1)
     (Vec3 0 0 0) (Vec3 1 0 0) (Dict pushing_info) = Inr (Item (- 13)) \<and>
   [pushing_info, example_info] \<noteq> [] \<and>
   well_formed pushing_info \<and> well_formed example_info \<and>
   compute_reward (init example_sim example_rng ''sparse'' 0.05 0.1 0 0.1)
     (Vec3 0 0 0) (Vec3 1 0 0) (Seq [pushing_info, example_info]) = Inr (Batch [- 13, - 4]) \<and>
   compute_reward (init example_sim example_rng ''dense'' 0.05 0.1 0 0.1)
     (Vec3 0 0 0) (Vec3 1 0 0) (Seq [pushing_info, example_info]) = Inr (Batch [- 13, - 4])"
proof -
  have h: "pos_tcp pushing_info = Some (Vec3 1 0 0) \<and> grasp pushing_info = Some False \<and>
           collisions pushing_info = Some True"
    by (simp add: pushing_info_def)
  have wf: "[pushing_info, example_info] \<noteq> [] \<and>
            (\<forall>dd\<in>set [pushing_info, example_info]. well_formed dd)"
    by (auto simp: example_info_def pushing_info_def well_formed_def)
  have wf2: "well_formed pushing_info \<and> well_formed example_info"
    using wf by simp
  have v: "spec_total_reward (Vec3 0 0 0) True (Vec3 0 0 0) (Vec3 1 0 0) = - 4"
          "spec_total_reward (Vec3 1 0 0) True (Vec3 0 0 0) (Vec3 1 0 0) = - 13"
    by (simp_all add: spec_total_reward_def spec_position_for_grasp_def euclidean_distance_def)
  have sel: "the (pos_tcp example_info) = Vec3 0 0 0" "the (collisions example_info) = True"
            "the (pos_tcp pushing_info) = Vec3 1 0 0" "the (collisions pushing_info) = True"
    by (simp_all add: example_info_def pushing_info_def)
  from compute_reward_ignores_reward_type [where r = pushing_info and p = "Vec3 1 0 0"
      and gr = False and c = True and sm = example_sim and g = example_rng
      and rt = "''sparse''" and th = "0.05" and gxy = "0.1" and gz = 0 and oxy = "0.1"
      and a = "Vec3 0 0 0" and d = "Vec3 1 0 0" and ds = "[pushing_info, example_info]"]
    compute_reward_ignores_reward_type [where r = pushing_info and p = "Vec3 1 0 0"
      and gr = False and c = True and sm = example_sim and g = example_rng
      and rt = "''dense''" and th = "0.05" and gxy = "0.1" and gz = 0 and oxy = "0.1"
      and a = "Vec3 0 0 0" and d = "Vec3 1 0 0" and ds = "[pushing_info, example_info]"]
    h wf wf2
  show ?thesis by (simp add: v sel)
qed

end
